theory Spec2Isabelle
  imports Main
begin

section \<open>The promote command of the CLI: a shallow embedding\<close>

text \<open>
  The embedding follows the Go source of package \<open>promote\<close>: \<open>promotionOptions\<close>,
  its methods \<open>validate\<close> and \<open>run\<close>, and the \<open>RunE\<close> closure of \<open>NewCommand\<close>.
  A Go pointer is an \<open>option\<close> (\<open>None\<close> is \<open>nil\<close>), an \<open>error\<close> interface value is an
  \<open>error option\<close>, and a nil pointer dereference is the outcome \<open>Panic\<close>.
\<close>

subsection \<open>Errors\<close>

text \<open>
  \<open>Remote\<close> stands for an error value made by a collaborator outside the package (the
  transport, the client factory, the printer factory). \<open>Errorf\<close> is \<open>errors.Errorf\<close>
  with its message formatted, \<open>Wrap e msg\<close> is \<open>errors.Wrap(e, msg)\<close> for a non-nil
  \<open>e\<close>, and \<open>Join es\<close> is the value \<open>goerrors.Join\<close> builds from the non-nil errors
  \<open>es\<close>.
\<close>

datatype error =
    Remote string
  | Errorf string
  | Wrap error string
  | Join "error list"

text \<open>\<open>goerrors.Join\<close>: nil when there is no error to join. Every element of
  \<open>errs\<close> in \<open>validate\<close> is non-nil.\<close>

definition goerrors_Join :: "error list \<Rightarrow> error option" where
  "goerrors_Join errs = (if errs = [] then None else Some (Join errs))"

subsection \<open>Messages of the remote service\<close>

text \<open>The generated protobuf structs, with the fields the command reads: the
  promotions of a response, a promotion's \<open>Metadata\<close> and its \<open>Name\<close>. Message fields
  and the name are pointers, as \<open>*p.Metadata.Name\<close> shows.\<close>

record object_meta =
  Name :: "string option"

record promotion =
  Metadata :: "object_meta option"

record promote_stage_response =
  Promotion :: "promotion option"

record promote_subscribers_response =
  Promotions :: "promotion option list"

text \<open>\<open>connect.Response[T]\<close>: the field \<open>Msg\<close> is a pointer to the message.\<close>

record 'm response =
  Msg :: "'m option"

text \<open>\<open>PromoteStageRequest\<close> and \<open>PromoteSubscribersRequest\<close> carry the same four
  fields.\<close>

record promote_request =
  req_Project :: string
  req_Freight :: string
  req_FreightAlias :: string
  req_Stage :: string

text \<open>
  Modelled from the spec: the getters generated for these messages are not among the
  sources. As the getters of generated protobuf code do (the nil-safe getter chains of the
  single-stage path), each returns the field, and the zero value on a nil receiver.
\<close>

definition GetPromotion :: "promote_stage_response option \<Rightarrow> promotion option" where
  "GetPromotion x = (case x of None \<Rightarrow> None | Some m \<Rightarrow> Promotion m)"

definition GetMetadata :: "promotion option \<Rightarrow> object_meta option" where
  "GetMetadata x = (case x of None \<Rightarrow> None | Some p \<Rightarrow> Metadata p)"

definition GetName :: "object_meta option \<Rightarrow> string" where
  "GetName x = (case x of None \<Rightarrow> [] | Some m \<Rightarrow> (case Name m of None \<Rightarrow> [] | Some n \<Rightarrow> n))"

definition GetPromotions :: "promote_subscribers_response option \<Rightarrow> promotion option list" where
  "GetPromotions x = (case x of None \<Rightarrow> [] | Some m \<Rightarrow> Promotions m)"

text \<open>\<open>ptr.Deref(p, def)\<close>.\<close>

definition ptr_Deref :: "'a option \<Rightarrow> 'a \<Rightarrow> 'a" where
  "ptr_Deref p d = (case p of None \<Rightarrow> d | Some v \<Rightarrow> v)"

subsection \<open>Formatting\<close>

text \<open>
  The verb \<open>%q\<close> of \<open>fmt\<close> on a string is \<open>strconv.Quote\<close>: a double quote, the
  runes of the string one after the other, a double quote. A rune below \<open>0x80\<close> is one
  byte, and what is written for it is fixed: the quote and the backslash with a backslash
  before them, printable ASCII (\<open>0x20\<close> to \<open>0x7e\<close>) as it is, the seven control
  characters that have a letter escape with that escape, and any other control character
  and \<open>0x7f\<close> as \<open>\x\<close> and two lower-case hex digits.
\<close>

definition lowerhex :: "nat \<Rightarrow> char" where
  "lowerhex n = ''0123456789abcdef'' ! (n mod 16)"

definition escape_ascii :: "char \<Rightarrow> string" where
  "escape_ascii c =
     (let n = (of_char c :: nat) in
      if c = CHR 0x22 \<or> c = CHR 0x5C then [CHR 0x5C, c]
      else if 32 \<le> n \<and> n < 127 then [c]
      else if n = 7 then [CHR 0x5C, CHR ''a'']
      else if n = 8 then [CHR 0x5C, CHR ''b'']
      else if n = 12 then [CHR 0x5C, CHR ''f'']
      else if n = 10 then [CHR 0x5C, CHR ''n'']
      else if n = 13 then [CHR 0x5C, CHR ''r'']
      else if n = 9 then [CHR 0x5C, CHR ''t'']
      else if n = 11 then [CHR 0x5C, CHR ''v'']
      else [CHR 0x5C, CHR ''x'', lowerhex (n div 16), lowerhex n])"

text \<open>
  At a byte from \<open>0x80\<close> on, \<open>strconv.Quote\<close> calls \<open>utf8.DecodeRuneInString\<close> on the
  rest of the string and writes the rune unchanged when \<open>unicode.IsPrint\<close> holds of it, as
  a \<open>\u\<close> or \<open>\U\<close> escape when it does not, and the single byte as a \<open>\x\<close> escape when
  no valid encoding starts there. The decoder and the Unicode tables belong to the Go
  library, so the model takes them as a parameter: a \<open>rune_quoter\<close> maps the rest of the
  string, which starts with such a byte, to the bytes written for its first rune and the
  width of that rune in bytes, which is at least one.
\<close>

type_synonym rune_quoter = "string \<Rightarrow> string \<times> nat"

text \<open>
  The loop of \<open>strconv.Quote\<close> over the string: \<open>skip\<close> counts the bytes of the current
  rune that are still to be passed over (the loop continues at \<open>s[width:]\<close>).
\<close>

fun quote_runes :: "rune_quoter \<Rightarrow> nat \<Rightarrow> string \<Rightarrow> string" where
  "quote_runes high skip [] = []"
| "quote_runes high (Suc skip) (c # cs) = quote_runes high skip cs"
| "quote_runes high 0 (c # cs) =
     (if (of_char c :: nat) < 128 then escape_ascii c @ quote_runes high 0 cs
      else (case high (c # cs) of
              (bytes, width) \<Rightarrow> bytes @ quote_runes high (width - 1) cs))"

definition quote :: "rune_quoter \<Rightarrow> string \<Rightarrow> string" where
  "quote high s = [CHR 0x22] @ quote_runes high 0 s @ [CHR 0x22]"

text \<open>\<open>fmt.Sprintf("Promotion Created: %q\n", name)\<close>.\<close>

definition created_line :: "rune_quoter \<Rightarrow> string \<Rightarrow> string" where
  "created_line high name = ''Promotion Created: '' @ quote high name @ [CHR 0x0A]"

text \<open>A name that \<open>%q\<close> writes unchanged between the quotes: printable ASCII with no
  double quote and no backslash.\<close>

definition plain_name :: "string \<Rightarrow> bool" where
  "plain_name s =
     list_all (\<lambda>c. 32 \<le> (of_char c :: nat) \<and> (of_char c :: nat) < 127 \<and>
                    c \<noteq> CHR 0x22 \<and> c \<noteq> CHR 0x5C) s"

text \<open>The line with the name unchanged between two double quotes.\<close>

definition literal_line :: "string \<Rightarrow> string" where
  "literal_line name = ''Promotion Created: '' @ [CHR 0x22] @ name @ [CHR 0x22, CHR 0x0A]"

subsection \<open>Collaborators\<close>

text \<open>
  The service client: each method maps the request to the pair the Go call returns, a
  response pointer and an error. Both may be non-nil, and both may be nil.
\<close>

record kargo_service =
  PromoteStage :: "promote_request \<Rightarrow> promote_stage_response response option \<times> error option"
  PromoteSubscribers ::
    "promote_request \<Rightarrow> promote_subscribers_response response option \<times> error option"

text \<open>
  \<open>printer.PrintObj(obj, out)\<close>: the bytes it writes to \<open>out\<close> and the error it
  returns. \<open>'k\<close> is the type of the converted object.
\<close>

type_synonym 'k printer = "'k \<Rightarrow> string \<times> error option"

text \<open>
  What the package calls and does not define: \<open>client.GetClientFromConfig\<close> (its
  result for the configuration and options at hand),
  \<open>typesv1alpha1.FromPromotionProto\<close>, and what \<open>%q\<close> writes for a rune that starts
  at a byte from \<open>0x80\<close> on (the \<open>rune_quoter\<close> above).
\<close>

record 'k collaborators =
  GetClientFromConfig :: "error + kargo_service"
  FromPromotionProto :: "promotion option \<Rightarrow> 'k"
  QuoteRune :: rune_quoter

text \<open>The flag names of package \<open>option\<close>, which the error messages of \<open>validate\<close>
  are formatted with.\<close>

record flag_names =
  ProjectFlag :: string
  FreightFlag :: string
  FreightAliasFlag :: string
  StageFlag :: string
  SubscribersOfFlag :: string

subsection \<open>Options, output stream and outcome\<close>

text \<open>
  \<open>promotionOptions\<close> with the fields of the embedded \<open>option.Option\<close> that the
  command reads: \<open>Project\<close>, \<open>PrintFlags.OutputFormat\<close> and the result of
  \<open>PrintFlags.ToPrinter()\<close>.
\<close>

record 'k promotionOptions =
  Project :: string
  OutputFormat :: "string option"
  ToPrinter :: "error + 'k printer"
  FreightName :: string
  FreightAlias :: string
  Stage :: string
  SubscribersOf :: string

datatype rpc_call =
    CallPromoteStage promote_request
  | CallPromoteSubscribers promote_request

text \<open>What the command acts on: the bytes written to \<open>IOStreams.Out\<close> so far and
  the remote calls made so far.\<close>

record world =
  Out :: string
  calls :: "rpc_call list"

datatype outcome =
    Returned "error option"
  | Panic

subsection \<open>validate\<close>

text \<open>
  The three checks in the order of the source, each appending to \<open>errs\<close>; the result
  is \<open>goerrors.Join(errs...)\<close>.
\<close>

definition validate :: "flag_names \<Rightarrow> 'k promotionOptions \<Rightarrow> error option" where
  "validate fl opts =
     (let errs = [];
          errs = (if Project opts = [] then
                    errs @ [Errorf (ProjectFlag fl @ '' is required'')]
                  else errs);
          errs = (if FreightName opts = [] \<and> FreightAlias opts = [] then
                    errs @ [Errorf (''either '' @ FreightFlag fl @ '' or '' @
                                    FreightAliasFlag fl @ '' is required'')]
                  else errs);
          errs = (if Stage opts = [] \<and> SubscribersOf opts = [] then
                    errs @ [Errorf (''either '' @ StageFlag fl @ '' or '' @
                                    SubscribersOfFlag fl @ '' is required'')]
                  else errs)
      in goerrors_Join errs)"

subsection \<open>run\<close>

text \<open>
  \<open>*p.Metadata.Name\<close> for an element \<open>p\<close> of the response's promotions: \<open>None\<close>
  is the nil pointer dereference (of \<open>p\<close>, of \<open>p.Metadata\<close> or of the name).
\<close>

definition deref_Metadata_Name :: "promotion option \<Rightarrow> string option" where
  "deref_Metadata_Name p =
     (case p of
        None \<Rightarrow> None
      | Some pr \<Rightarrow> (case Metadata pr of None \<Rightarrow> None | Some m \<Rightarrow> Name m))"

text \<open>A promotion of the response that has a non-nil \<open>Metadata\<close> with a non-nil
  \<open>Name\<close>.\<close>

definition has_name :: "promotion option \<Rightarrow> bool" where
  "has_name p =
     (case p of
        None \<Rightarrow> False
      | Some pr \<Rightarrow> (case Metadata pr of None \<Rightarrow> False | Some m \<Rightarrow> Name m \<noteq> None))"

text \<open>
  The loop of the plain subscribers path: one line per promotion, in order. The flag is
  False when a dereference panics; the lines written before the panic stay written.
\<close>

fun print_created ::
  "rune_quoter \<Rightarrow> promotion option list \<Rightarrow> string \<Rightarrow> bool \<times> string"
where
  "print_created high [] out = (True, out)"
| "print_created high (p # ps) out =
     (case deref_Metadata_Name p of
        None \<Rightarrow> (False, out)
      | Some n \<Rightarrow> print_created high ps (out @ created_line high n))"

text \<open>
  The loop of the structured subscribers path: each promotion is converted and handed to
  the printer, and the error of \<open>PrintObj\<close> is assigned to the blank identifier.
\<close>

fun print_objs ::
  "'k printer \<Rightarrow> (promotion option \<Rightarrow> 'k) \<Rightarrow> promotion option list \<Rightarrow> string \<Rightarrow> string"
where
  "print_objs printer conv [] out = out"
| "print_objs printer conv (p # ps) out =
     print_objs printer conv ps (out @ fst (printer (conv p)))"

text \<open>The requests the two cases build from the options.\<close>

definition stage_request :: "'k promotionOptions \<Rightarrow> promote_request" where
  "stage_request opts =
     \<lparr>req_Project = Project opts, req_Freight = FreightName opts,
      req_FreightAlias = FreightAlias opts, req_Stage = Stage opts\<rparr>"

definition subscribers_request :: "'k promotionOptions \<Rightarrow> promote_request" where
  "subscribers_request opts =
     \<lparr>req_Project = Project opts, req_Freight = FreightName opts,
      req_FreightAlias = FreightAlias opts, req_Stage = SubscribersOf opts\<rparr>"

text \<open>The case \<open>o.Stage != ""\<close> of the switch.\<close>

definition promote_stage_case ::
  "'k collaborators \<Rightarrow> kargo_service \<Rightarrow> 'k promotionOptions \<Rightarrow> world \<Rightarrow> outcome \<times> world"
where
  "promote_stage_case d kargoSvcCli opts w =
     (let req = stage_request opts;
          (res, err) = PromoteStage kargoSvcCli req;
          w1 = w\<lparr>calls := calls w @ [CallPromoteStage req]\<rparr>
      in case err of
           Some e \<Rightarrow> (Returned (Some (Wrap e ''promote stage'')), w1)
         | None \<Rightarrow>
             if ptr_Deref (OutputFormat opts) [] = [] then
               (case res of
                  None \<Rightarrow> (Panic, w1)
                | Some r \<Rightarrow>
                    (Returned None,
                     w1\<lparr>Out := Out w1 @
                          created_line (QuoteRune d)
                            (GetName (GetMetadata (GetPromotion (Msg r))))\<rparr>))
             else
               (case ToPrinter opts of
                  Inl perr \<Rightarrow> (Returned (Some (Wrap perr ''new printer'')), w1)
                | Inr printer \<Rightarrow>
                    (case res of
                       None \<Rightarrow> (Panic, w1)
                     | Some r \<Rightarrow>
                         (Returned None,
                          w1\<lparr>Out := Out w1 @
                               fst (printer (FromPromotionProto d (GetPromotion (Msg r))))\<rparr>))))"

text \<open>The case \<open>o.SubscribersOf != ""\<close> of the switch.\<close>

definition promote_subscribers_case ::
  "'k collaborators \<Rightarrow> kargo_service \<Rightarrow> 'k promotionOptions \<Rightarrow> world \<Rightarrow> outcome \<times> world"
where
  "promote_subscribers_case d kargoSvcCli opts w =
     (let req = subscribers_request opts;
          (res, promoteErr) = PromoteSubscribers kargoSvcCli req;
          w1 = w\<lparr>calls := calls w @ [CallPromoteSubscribers req]\<rparr>
      in if ptr_Deref (OutputFormat opts) [] = [] then
           (let (completed, out) =
                  (case res of
                     None \<Rightarrow> (True, Out w1)
                   | Some r \<Rightarrow>
                       (case Msg r of
                          None \<Rightarrow> (True, Out w1)
                        | Some m \<Rightarrow>
                            print_created (QuoteRune d) (GetPromotions (Msg r)) (Out w1)));
                w2 = w1\<lparr>Out := out\<rparr>
            in if \<not> completed then (Panic, w2)
               else (case promoteErr of
                       Some e \<Rightarrow> (Returned (Some (Wrap e ''promote subscribers'')), w2)
                     | None \<Rightarrow> (Returned None, w2)))
         else
           (case ToPrinter opts of
              Inl printerErr \<Rightarrow> (Returned (Some (Wrap printerErr ''new printer'')), w1)
            | Inr printer \<Rightarrow>
                (case res of
                   None \<Rightarrow> (Panic, w1)
                 | Some r \<Rightarrow>
                     (Returned promoteErr,
                      w1\<lparr>Out := print_objs printer (FromPromotionProto d)
                                    (GetPromotions (Msg r)) (Out w1)\<rparr>))))"

text \<open>\<open>run\<close>: the client, then the switch, whose first true case runs.\<close>

definition run :: "'k collaborators \<Rightarrow> 'k promotionOptions \<Rightarrow> world \<Rightarrow> outcome \<times> world" where
  "run d opts w =
     (case GetClientFromConfig d of
        Inl err \<Rightarrow> (Returned (Some err), w)
      | Inr kargoSvcCli \<Rightarrow>
          if Stage opts \<noteq> [] then promote_stage_case d kargoSvcCli opts w
          else if SubscribersOf opts \<noteq> [] then promote_subscribers_case d kargoSvcCli opts w
          else (Returned None, w))"

text \<open>The \<open>RunE\<close> closure of \<open>NewCommand\<close>: \<open>validate\<close>, then \<open>run\<close>.\<close>

definition RunE ::
  "flag_names \<Rightarrow> 'k collaborators \<Rightarrow> 'k promotionOptions \<Rightarrow> world \<Rightarrow> outcome \<times> world"
where
  "RunE fl d opts w =
     (case validate fl opts of
        Some err \<Rightarrow> (Returned (Some err), w)
      | None \<Rightarrow> run d opts w)"

subsection \<open>Concrete inputs\<close>

text \<open>The flag names as the command's usage line spells them.\<close>

definition usage_flags :: flag_names where
  "usage_flags =
     \<lparr>ProjectFlag = ''project'', FreightFlag = ''freight'',
      FreightAliasFlag = ''freight-alias'', StageFlag = ''stage'',
      SubscribersOfFlag = ''subscribers-of''\<rparr>"

text \<open>A promotion whose metadata carries the name \<open>n\<close>.\<close>

definition named :: "string \<Rightarrow> promotion option" where
  "named n = Some \<lparr>Metadata = Some \<lparr>Name = Some n\<rparr>\<rparr>"

text \<open>A client whose two calls return the given pairs whatever the request.\<close>

definition client_returning ::
  "promote_stage_response response option \<times> error option \<Rightarrow>
   promote_subscribers_response response option \<times> error option \<Rightarrow> kargo_service"
where
  "client_returning a b = \<lparr>PromoteStage = (\<lambda>_. a), PromoteSubscribers = (\<lambda>_. b)\<rparr>"

text \<open>A stand-in for the library's part of \<open>%q\<close>. The names of the examples are
  ASCII, so it is never applied.\<close>

definition ascii_only :: rune_quoter where
  "ascii_only s = ([], 1)"

text \<open>Collaborators for the examples: the client is built, and the converted object
  is the promotion itself.\<close>

definition with_client :: "kargo_service \<Rightarrow> promotion option collaborators" where
  "with_client svc =
     \<lparr>GetClientFromConfig = Inr svc, FromPromotionProto = (\<lambda>p. p), QuoteRune = ascii_only\<rparr>"

text \<open>A printer that writes the name and a newline, and one that writes nothing and
  fails on every object.\<close>

definition name_printer :: "promotion option printer" where
  "name_printer p = (GetName (GetMetadata p) @ [CHR 0x0A], None)"

definition failing_printer :: "promotion option printer" where
  "failing_printer p = ([], Some (Remote ''print failed''))"

definition empty_world :: world where
  "empty_world = \<lparr>Out = [], calls = []\<rparr>"

section \<open>Properties\<close>

subsection \<open>Formatting and the two loops\<close>

lemma escape_ascii_plain:
  "32 \<le> (of_char c :: nat) \<Longrightarrow> (of_char c :: nat) < 127 \<Longrightarrow> c \<noteq> CHR 0x22 \<Longrightarrow>
   c \<noteq> CHR 0x5C \<Longrightarrow> escape_ascii c = [c]"
  by (simp add: escape_ascii_def)

text \<open>On a string of bytes below \<open>0x80\<close> the library's part of \<open>%q\<close> is not
  consulted.\<close>

lemma quote_runes_ascii:
  "list_all (\<lambda>c. (of_char c :: nat) < 128) s \<Longrightarrow>
   quote_runes high 0 s = concat (map escape_ascii s)"
  by (induction s) simp_all

lemma quote_runes_plain: "plain_name s \<Longrightarrow> quote_runes high 0 s = s"
  unfolding plain_name_def
  by (induction s) (simp_all add: escape_ascii_plain)

text \<open>A name of printable ASCII with no quote and no backslash is written unchanged
  between two double quotes.\<close>

lemma quote_plain: "plain_name s \<Longrightarrow> quote high s = [CHR 0x22] @ s @ [CHR 0x22]"
  by (simp add: quote_def quote_runes_plain)

lemma created_line_plain: "plain_name s \<Longrightarrow> created_line high s = literal_line s"
  by (simp add: created_line_def literal_line_def quote_plain)

lemma created_lines_plain:
  "list_all plain_name ns \<Longrightarrow>
   concat (map (created_line high) ns) = concat (map literal_line ns)"
  by (induction ns) (simp_all add: created_line_plain)

text \<open>When every dereference succeeds the plain loop writes one line per name, in
  order, and completes.\<close>

lemma print_created_names:
  "map deref_Metadata_Name ps = map Some ns \<Longrightarrow>
   print_created high ps out = (True, out @ concat (map (created_line high) ns))"
proof (induction ps arbitrary: ns out)
  case Nil
  then show ?case by simp
next
  case (Cons p ps)
  then obtain n ns' where ns: "ns = n # ns'" "deref_Metadata_Name p = Some n"
    "map deref_Metadata_Name ps = map Some ns'"
    by (cases ns) auto
  with Cons.IH [of ns' "out @ created_line high n"] show ?case by simp
qed

subsection \<open>Which case of the switch runs\<close>

lemma run_stage_branch:
  "GetClientFromConfig d = Inr svc \<Longrightarrow> Stage opts \<noteq> [] \<Longrightarrow>
   run d opts w = promote_stage_case d svc opts w"
  by (simp add: run_def)

lemma run_subscribers_branch:
  "GetClientFromConfig d = Inr svc \<Longrightarrow> Stage opts = [] \<Longrightarrow> SubscribersOf opts \<noteq> [] \<Longrightarrow>
   run d opts w = promote_subscribers_case d svc opts w"
  by (simp add: run_def)

lemma RunE_valid: "validate fl opts = None \<Longrightarrow> RunE fl d opts w = run d opts w"
  by (simp add: RunE_def)

subsection \<open>Subscribers, plain output, partial failure\<close>

text \<open>
  The plain subscribers path when every promotion of the response is named. The options
  pass \<open>validate\<close>, \<open>SubscribersOf\<close> is set and it is the subscribers call that is made
  (\<open>Stage\<close> is empty, the client is built), no output format is requested,
  \<open>PromoteSubscribers\<close> returns a non-nil response together with a non-nil error \<open>E\<close>,
  and \<open>names\<close> lists what \<open>*p.Metadata.Name\<close> reads for each promotion. Then the
  command writes one line \<open>Promotion Created: %q\<close> for each promotion, in the order of
  the response, and returns \<open>E\<close> wrapped with \<open>promote subscribers\<close>; the one remote
  call is the subscribers call. For names of printable ASCII with no quote and no
  backslash each line is \<open>Promotion Created: "<name>"\<close> with the name unchanged.
\<close>

lemma subscribers_plain_partial_failure:
  assumes "validate fl opts = None"
    and "GetClientFromConfig d = Inr svc"
    and "Stage opts = []" and "SubscribersOf opts \<noteq> []"
    and "ptr_Deref (OutputFormat opts) [] = []"
    and "PromoteSubscribers svc (subscribers_request opts) = (Some res, Some E)"
    and "map deref_Metadata_Name (GetPromotions (Msg res)) = map Some names"
  shows "RunE fl d opts w =
           (Returned (Some (Wrap E ''promote subscribers'')),
            w\<lparr>Out := Out w @ concat (map (created_line (QuoteRune d)) names),
              calls := calls w @ [CallPromoteSubscribers (subscribers_request opts)]\<rparr>)
       \<and> (list_all plain_name names \<longrightarrow>
            Out (snd (RunE fl d opts w)) = Out w @ concat (map literal_line names))"
proof -
  have run: "RunE fl d opts w = promote_subscribers_case d svc opts w"
    using assms(1-4) by (simp add: RunE_valid run_subscribers_branch)
  have eq: "RunE fl d opts w =
           (Returned (Some (Wrap E ''promote subscribers'')),
            w\<lparr>Out := Out w @ concat (map (created_line (QuoteRune d)) names),
              calls := calls w @ [CallPromoteSubscribers (subscribers_request opts)]\<rparr>)"
  proof (cases "Msg res")
    case None
    with assms(7) have "names = []" by (simp add: GetPromotions_def)
    with None assms(5,6) run show ?thesis
      by (simp add: promote_subscribers_case_def)
  next
    case (Some m)
    with assms(5,6,7) run show ?thesis
      by (simp add: promote_subscribers_case_def print_created_names)
  qed
  then have "list_all plain_name names \<longrightarrow>
      Out (snd (RunE fl d opts w)) = Out w @ concat (map literal_line names)"
    by (simp add: created_lines_plain)
  with eq show ?thesis by blast
qed

text \<open>Scenario C of the specification.\<close>

lemma subscribers_plain_partial_failure_scenario_C:
  "RunE usage_flags
     (with_client (client_returning (None, None)
        (Some \<lparr>Msg = Some \<lparr>Promotions = [named ''promo-2'', named ''promo-3'']\<rparr>\<rparr>,
         Some (Remote ''E''))))
     \<lparr>Project = ''my-project'', OutputFormat = None, ToPrinter = Inr name_printer,
      FreightName = [], FreightAlias = ''wonky-wombat'', Stage = [], SubscribersOf = ''qa''\<rparr>
     empty_world =
   (Returned (Some (Wrap (Remote ''E'') ''promote subscribers'')),
    \<lparr>Out = ''Promotion Created: '' @ [CHR 0x22] @ ''promo-2'' @ [CHR 0x22, CHR 0x0A] @
            ''Promotion Created: '' @ [CHR 0x22] @ ''promo-3'' @ [CHR 0x22, CHR 0x0A],
     calls = [CallPromoteSubscribers
                \<lparr>req_Project = ''my-project'', req_Freight = [],
                 req_FreightAlias = ''wonky-wombat'', req_Stage = ''qa''\<rparr>]\<rparr>)
   \<and> list_all plain_name [''promo-2'', ''promo-3'']
   \<and> ''Promotion Created: '' @ [CHR 0x22] @ ''promo-2'' @ [CHR 0x22, CHR 0x0A] @
       ''Promotion Created: '' @ [CHR 0x22] @ ''promo-3'' @ [CHR 0x22, CHR 0x0A] =
       concat (map literal_line [''promo-2'', ''promo-3''])"
  using subscribers_plain_partial_failure
    [of usage_flags
      "\<lparr>Project = ''my-project'', OutputFormat = None, ToPrinter = Inr name_printer,
        FreightName = [], FreightAlias = ''wonky-wombat'', Stage = [], SubscribersOf = ''qa''\<rparr>"
      "with_client (client_returning (None, None)
        (Some \<lparr>Msg = Some \<lparr>Promotions = [named ''promo-2'', named ''promo-3'']\<rparr>\<rparr>,
         Some (Remote ''E'')))"
      "client_returning (None, None)
        (Some \<lparr>Msg = Some \<lparr>Promotions = [named ''promo-2'', named ''promo-3'']\<rparr>\<rparr>,
         Some (Remote ''E''))"
      "\<lparr>Msg = Some \<lparr>Promotions = [named ''promo-2'', named ''promo-3'']\<rparr>\<rparr>"
      "Remote ''E''" "[''promo-2'', ''promo-3'']" empty_world]
  by (simp add: validate_def goerrors_Join_def with_client_def client_returning_def
      ptr_Deref_def GetPromotions_def named_def deref_Metadata_Name_def
      subscribers_request_def created_line_def quote_def escape_ascii_def empty_world_def
      plain_name_def literal_line_def)

text \<open>
  Claim C1. With \<open>SubscribersOf\<close> set, plain output, and a non-nil response together
  with a non-nil error \<open>E\<close>, the command does not print every promotion and return
  \<open>E\<close> wrapped when a promotion of the response has no metadata: it writes the line of
  the first promotion, panics at \<open>*p.Metadata.Name\<close> of the second, and returns nothing.
\<close>

theorem subscribers_plain_nameless_promotion_panics:
  "RunE usage_flags
     (with_client (client_returning (None, None)
        (Some \<lparr>Msg = Some \<lparr>Promotions = [named ''promo-2'', Some \<lparr>Metadata = None\<rparr>]\<rparr>\<rparr>,
         Some (Remote ''E''))))
     \<lparr>Project = ''my-project'', OutputFormat = None, ToPrinter = Inr name_printer,
      FreightName = [], FreightAlias = ''wonky-wombat'', Stage = [], SubscribersOf = ''qa''\<rparr>
     empty_world =
   (Panic,
    \<lparr>Out = ''Promotion Created: '' @ [CHR 0x22] @ ''promo-2'' @ [CHR 0x22, CHR 0x0A],
     calls = [CallPromoteSubscribers
                \<lparr>req_Project = ''my-project'', req_Freight = [],
                 req_FreightAlias = ''wonky-wombat'', req_Stage = ''qa''\<rparr>]\<rparr>)"
  by (simp add: validate_def goerrors_Join_def RunE_def run_def promote_subscribers_case_def
      with_client_def client_returning_def ptr_Deref_def GetPromotions_def named_def
      deref_Metadata_Name_def subscribers_request_def created_line_def quote_def
      escape_ascii_def empty_world_def)

subsection \<open>Single stage, plain output, success\<close>

text \<open>
  Claim C5. The options pass \<open>validate\<close>, \<open>Stage\<close> is set, the client is built and no
  output format is requested. When \<open>PromoteStage\<close> succeeds and its response holds a
  promotion named \<open>n\<close>, the command appends exactly the one line
  \<open>Promotion Created: %q\<close> of \<open>n\<close> with its newline to the output, makes that one
  remote call and returns nil. For a name of printable ASCII with no quote and no
  backslash the line is \<open>Promotion Created: "n"\<close> with the name unchanged.
\<close>

theorem stage_plain_success:
  assumes "validate fl opts = None"
    and "GetClientFromConfig d = Inr svc"
    and "Stage opts \<noteq> []"
    and "ptr_Deref (OutputFormat opts) [] = []"
    and "PromoteStage svc (stage_request opts) = (Some res, None)"
    and "GetPromotion (Msg res) = Some p"
    and "GetName (GetMetadata (Some p)) = n"
  shows "RunE fl d opts w =
           (Returned None,
            w\<lparr>Out := Out w @ created_line (QuoteRune d) n,
              calls := calls w @ [CallPromoteStage (stage_request opts)]\<rparr>)
       \<and> (plain_name n \<longrightarrow> Out (snd (RunE fl d opts w)) = Out w @ literal_line n)"
proof -
  have "RunE fl d opts w = promote_stage_case d svc opts w"
    using assms(1-3) by (simp add: RunE_valid run_stage_branch)
  with assms(4-7) have eq: "RunE fl d opts w =
           (Returned None,
            w\<lparr>Out := Out w @ created_line (QuoteRune d) n,
              calls := calls w @ [CallPromoteStage (stage_request opts)]\<rparr>)"
    by (simp add: promote_stage_case_def)
  then have "plain_name n \<longrightarrow> Out (snd (RunE fl d opts w)) = Out w @ literal_line n"
    by (simp add: created_line_plain)
  with eq show ?thesis by blast
qed

text \<open>Scenario A of the specification.\<close>

theorem stage_plain_success_witness:
  "RunE usage_flags
     (with_client (client_returning
        (Some \<lparr>Msg = Some \<lparr>Promotion = named ''promo-1''\<rparr>\<rparr>, None) (None, None)))
     \<lparr>Project = ''my-project'', OutputFormat = None, ToPrinter = Inr name_printer,
      FreightName = ''abc123'', FreightAlias = [], Stage = ''qa'', SubscribersOf = []\<rparr>
     empty_world =
   (Returned None,
    \<lparr>Out = ''Promotion Created: '' @ [CHR 0x22] @ ''promo-1'' @ [CHR 0x22, CHR 0x0A],
     calls = [CallPromoteStage
                \<lparr>req_Project = ''my-project'', req_Freight = ''abc123'',
                 req_FreightAlias = [], req_Stage = ''qa''\<rparr>]\<rparr>)
   \<and> plain_name ''promo-1''
   \<and> ''Promotion Created: '' @ [CHR 0x22] @ ''promo-1'' @ [CHR 0x22, CHR 0x0A] =
       literal_line ''promo-1''"
  using stage_plain_success
    [of usage_flags
      "\<lparr>Project = ''my-project'', OutputFormat = None, ToPrinter = Inr name_printer,
        FreightName = ''abc123'', FreightAlias = [], Stage = ''qa'', SubscribersOf = []\<rparr>"
      "with_client (client_returning
        (Some \<lparr>Msg = Some \<lparr>Promotion = named ''promo-1''\<rparr>\<rparr>, None) (None, None))"
      "client_returning
        (Some \<lparr>Msg = Some \<lparr>Promotion = named ''promo-1''\<rparr>\<rparr>, None) (None, None)"
      "\<lparr>Msg = Some \<lparr>Promotion = named ''promo-1''\<rparr>\<rparr>"
      "\<lparr>Metadata = Some \<lparr>Name = Some ''promo-1''\<rparr>\<rparr>" "''promo-1''" empty_world]
  by (simp add: validate_def goerrors_Join_def with_client_def client_returning_def
      ptr_Deref_def GetPromotion_def GetMetadata_def GetName_def named_def
      stage_request_def created_line_def quote_def escape_ascii_def empty_world_def
      plain_name_def literal_line_def)

subsection \<open>Single stage, failure of the remote call\<close>

text \<open>
  Claim C6. The options pass \<open>validate\<close>, \<open>Stage\<close> is set and the client is built.
  When \<open>PromoteStage\<close> returns an error \<open>E\<close>, whatever the response pointer and
  whatever the output format, the command writes nothing to the output and returns
  \<open>E\<close> wrapped with \<open>promote stage\<close>.
\<close>

theorem stage_failure:
  assumes "validate fl opts = None"
    and "GetClientFromConfig d = Inr svc"
    and "Stage opts \<noteq> []"
    and "PromoteStage svc (stage_request opts) = (res, Some E)"
  shows "RunE fl d opts w =
           (Returned (Some (Wrap E ''promote stage'')),
            w\<lparr>calls := calls w @ [CallPromoteStage (stage_request opts)]\<rparr>)
         \<and> Out (snd (RunE fl d opts w)) = Out w"
proof -
  have "RunE fl d opts w = promote_stage_case d svc opts w"
    using assms(1-3) by (simp add: RunE_valid run_stage_branch)
  with assms(4) show ?thesis
    by (simp add: promote_stage_case_def)
qed

text \<open>Scenario B of the specification, here with an output format requested and a
  stream that already holds bytes.\<close>

theorem stage_failure_witness:
  "RunE usage_flags
     (with_client (client_returning (None, Some (Remote ''E'')) (None, None)))
     \<lparr>Project = ''my-project'', OutputFormat = Some ''json'', ToPrinter = Inr name_printer,
      FreightName = ''abc123'', FreightAlias = [], Stage = ''qa'', SubscribersOf = []\<rparr>
     \<lparr>Out = ''earlier'', calls = []\<rparr> =
   (Returned (Some (Wrap (Remote ''E'') ''promote stage'')),
    \<lparr>Out = ''earlier'',
     calls = [CallPromoteStage
                \<lparr>req_Project = ''my-project'', req_Freight = ''abc123'',
                 req_FreightAlias = [], req_Stage = ''qa''\<rparr>]\<rparr>)"
  using stage_failure
    [of usage_flags
      "\<lparr>Project = ''my-project'', OutputFormat = Some ''json'', ToPrinter = Inr name_printer,
        FreightName = ''abc123'', FreightAlias = [], Stage = ''qa'', SubscribersOf = []\<rparr>"
      "with_client (client_returning (None, Some (Remote ''E'')) (None, None))"
      "client_returning (None, Some (Remote ''E'')) (None, None)"
      None "Remote ''E''" "\<lparr>Out = ''earlier'', calls = []\<rparr>"]
  by (simp add: validate_def goerrors_Join_def with_client_def client_returning_def
      stage_request_def)

subsection \<open>Both selectors set\<close>

text \<open>
  Claim C8. When both \<open>Stage\<close> and \<open>SubscribersOf\<close> are non-empty and the client is
  built, \<open>run\<close> takes the single-stage case: the one remote call it makes is
  \<open>PromoteStage\<close>, and \<open>PromoteSubscribers\<close> is not called. \<open>validate\<close> does not reject
  such options: with a project and a freight identifier it returns nil.
\<close>

theorem stage_takes_precedence:
  assumes "Stage opts \<noteq> []" and "SubscribersOf opts \<noteq> []"
    and "GetClientFromConfig d = Inr svc"
  shows "run d opts w = promote_stage_case d svc opts w
       \<and> calls (snd (run d opts w)) = calls w @ [CallPromoteStage (stage_request opts)]
       \<and> (Project opts \<noteq> [] \<longrightarrow> FreightName opts \<noteq> [] \<or> FreightAlias opts \<noteq> [] \<longrightarrow>
            validate fl opts = None)"
proof -
  have r: "run d opts w = promote_stage_case d svc opts w"
    using assms by (simp add: run_stage_branch)
  have "calls (snd (promote_stage_case d svc opts w)) =
          calls w @ [CallPromoteStage (stage_request opts)]"
    by (simp add: promote_stage_case_def Let_def
        split: prod.splits option.splits sum.splits)
  moreover have "Project opts \<noteq> [] \<longrightarrow> FreightName opts \<noteq> [] \<or> FreightAlias opts \<noteq> [] \<longrightarrow>
      validate fl opts = None"
    using assms(1) by (auto simp add: validate_def goerrors_Join_def)
  ultimately show ?thesis using r by simp
qed

theorem stage_takes_precedence_witness:
  "calls (snd (run
      (with_client (client_returning
         (Some \<lparr>Msg = Some \<lparr>Promotion = named ''promo-1''\<rparr>\<rparr>, None)
         (Some \<lparr>Msg = Some \<lparr>Promotions = [named ''promo-2'']\<rparr>\<rparr>, None)))
      \<lparr>Project = ''my-project'', OutputFormat = None, ToPrinter = Inr name_printer,
       FreightName = ''abc123'', FreightAlias = [], Stage = ''qa'', SubscribersOf = ''dev''\<rparr>
      empty_world)) =
     [CallPromoteStage \<lparr>req_Project = ''my-project'', req_Freight = ''abc123'',
                        req_FreightAlias = [], req_Stage = ''qa''\<rparr>]
   \<and> validate usage_flags
       \<lparr>Project = ''my-project'', OutputFormat = None, ToPrinter = Inr name_printer,
        FreightName = ''abc123'', FreightAlias = [], Stage = ''qa'',
        SubscribersOf = ''dev''\<rparr> = None"
  using stage_takes_precedence
    [where opts = "\<lparr>Project = ''my-project'', OutputFormat = None,
         ToPrinter = Inr name_printer,
         FreightName = ''abc123'', FreightAlias = [], Stage = ''qa'', SubscribersOf = ''dev''\<rparr>"
      and d = "with_client (client_returning
         (Some \<lparr>Msg = Some \<lparr>Promotion = named ''promo-1''\<rparr>\<rparr>, None)
         (Some \<lparr>Msg = Some \<lparr>Promotions = [named ''promo-2'']\<rparr>\<rparr>, None))"
      and svc = "client_returning
         (Some \<lparr>Msg = Some \<lparr>Promotion = named ''promo-1''\<rparr>\<rparr>, None)
         (Some \<lparr>Msg = Some \<lparr>Promotions = [named ''promo-2'']\<rparr>\<rparr>, None)"
      and w = empty_world and fl = usage_flags, THEN conjunct2]
  by (simp add: with_client_def stage_request_def empty_world_def)

subsection \<open>Structured output: the printer's errors\<close>

text \<open>
  Claim C9. With an output format requested and a printer at hand, the error of
  \<open>PrintObj\<close> is discarded in both cases of the switch, whatever the printer returns:
  in the single-stage case a successful remote call makes \<open>run\<close> return nil, and in the
  subscribers case, with a response to print, \<open>run\<close> returns the error of the remote
  call as it is.
\<close>

theorem printobj_errors_discarded:
  assumes "GetClientFromConfig d = Inr svc"
    and "ptr_Deref (OutputFormat opts) [] \<noteq> []"
    and "ToPrinter opts = Inr printer"
  shows "(Stage opts \<noteq> [] \<longrightarrow> PromoteStage svc (stage_request opts) = (Some sres, None) \<longrightarrow>
            fst (run d opts w) = Returned None)
       \<and> (Stage opts = [] \<longrightarrow> SubscribersOf opts \<noteq> [] \<longrightarrow>
            PromoteSubscribers svc (subscribers_request opts) = (Some pres, promoteErr) \<longrightarrow>
            fst (run d opts w) = Returned promoteErr)"
proof (intro conjI impI)
  assume "Stage opts \<noteq> []" "PromoteStage svc (stage_request opts) = (Some sres, None)"
  with assms show "fst (run d opts w) = Returned None"
    by (simp add: run_stage_branch promote_stage_case_def)
next
  assume "Stage opts = []" "SubscribersOf opts \<noteq> []"
    "PromoteSubscribers svc (subscribers_request opts) = (Some pres, promoteErr)"
  with assms show "fst (run d opts w) = Returned promoteErr"
    by (simp add: run_subscribers_branch promote_subscribers_case_def)
qed

text \<open>A printer that fails on every object, in each of the two cases.\<close>

theorem printobj_errors_discarded_witness:
  "snd (failing_printer (named ''promo-1'')) = Some (Remote ''print failed'')
   \<and> fst (run (with_client (client_returning
              (Some \<lparr>Msg = Some \<lparr>Promotion = named ''promo-1''\<rparr>\<rparr>, None) (None, None)))
            \<lparr>Project = ''my-project'', OutputFormat = Some ''json'',
             ToPrinter = Inr failing_printer, FreightName = ''abc123'', FreightAlias = [],
             Stage = ''qa'', SubscribersOf = []\<rparr> empty_world) = Returned None
   \<and> fst (run (with_client (client_returning (None, None)
              (Some \<lparr>Msg = Some \<lparr>Promotions = [named ''promo-2'']\<rparr>\<rparr>, Some (Remote ''E''))))
            \<lparr>Project = ''my-project'', OutputFormat = Some ''json'',
             ToPrinter = Inr failing_printer, FreightName = ''abc123'', FreightAlias = [],
             Stage = [], SubscribersOf = ''qa''\<rparr> empty_world) = Returned (Some (Remote ''E''))"
  using printobj_errors_discarded
    [where d = "with_client (client_returning
              (Some \<lparr>Msg = Some \<lparr>Promotion = named ''promo-1''\<rparr>\<rparr>, None) (None, None))"
      and svc = "client_returning
              (Some \<lparr>Msg = Some \<lparr>Promotion = named ''promo-1''\<rparr>\<rparr>, None) (None, None)"
      and opts = "\<lparr>Project = ''my-project'', OutputFormat = Some ''json'',
             ToPrinter = Inr failing_printer, FreightName = ''abc123'', FreightAlias = [],
             Stage = ''qa'', SubscribersOf = []\<rparr>"
      and printer = failing_printer
      and sres = "\<lparr>Msg = Some \<lparr>Promotion = named ''promo-1''\<rparr>\<rparr>"
      and w = empty_world]
    printobj_errors_discarded
    [where d = "with_client (client_returning (None, None)
              (Some \<lparr>Msg = Some \<lparr>Promotions = [named ''promo-2'']\<rparr>\<rparr>, Some (Remote ''E'')))"
      and svc = "client_returning (None, None)
              (Some \<lparr>Msg = Some \<lparr>Promotions = [named ''promo-2'']\<rparr>\<rparr>, Some (Remote ''E''))"
      and opts = "\<lparr>Project = ''my-project'', OutputFormat = Some ''json'',
             ToPrinter = Inr failing_printer, FreightName = ''abc123'', FreightAlias = [],
             Stage = [], SubscribersOf = ''qa''\<rparr>"
      and printer = failing_printer
      and pres = "\<lparr>Msg = Some \<lparr>Promotions = [named ''promo-2'']\<rparr>\<rparr>"
      and promoteErr = "Some (Remote ''E'')"
      and w = empty_world]
  by (simp add: with_client_def client_returning_def ptr_Deref_def failing_printer_def)

subsection \<open>Plain output: the unguarded dereference\<close>

lemma print_created_has_name: "fst (print_created high ps out) = list_all has_name ps"
  by (induction ps arbitrary: out)
     (auto simp: has_name_def deref_Metadata_Name_def split: option.splits)

text \<open>
  Claim C10. In the subscribers case with plain output and a response whose message is
  present, the loop reads \<open>*p.Metadata.Name\<close> with no guard: \<open>run\<close> panics exactly
  when some promotion of the response lacks a non-nil \<open>Metadata\<close> with a non-nil
  \<open>Name\<close>, and when every promotion has them it returns normally (the error of the
  call wrapped, or nil). The single-stage case reads the name through the getters and
  returns normally on any response.
\<close>

theorem plain_subscribers_dereference:
  assumes "GetClientFromConfig d = Inr svc"
    and "Stage opts = []" and "SubscribersOf opts \<noteq> []"
    and "ptr_Deref (OutputFormat opts) [] = []"
    and "PromoteSubscribers svc (subscribers_request opts) = (Some res, promoteErr)"
    and "Msg res = Some m"
  shows "(fst (run d opts w) = Panic) = (\<not> list_all has_name (Promotions m))
       \<and> (list_all has_name (Promotions m) \<longrightarrow>
            fst (run d opts w) =
              Returned (map_option (\<lambda>e. Wrap e ''promote subscribers'') promoteErr))
       \<and> (Stage sopts \<noteq> [] \<longrightarrow> ptr_Deref (OutputFormat sopts) [] = [] \<longrightarrow>
            PromoteStage svc (stage_request sopts) = (Some sres, None) \<longrightarrow>
            fst (run d sopts w) = Returned None)"
proof -
  have r: "run d opts w = promote_subscribers_case d svc opts w"
    using assms(1-3) by (simp add: run_subscribers_branch)
  obtain c out where po: "print_created (QuoteRune d) (Promotions m) (Out w) = (c, out)"
    by (cases "print_created (QuoteRune d) (Promotions m) (Out w)")
  then have c: "c = list_all has_name (Promotions m)"
    using print_created_has_name [of "QuoteRune d" "Promotions m" "Out w"] by simp
  have 1: "(fst (run d opts w) = Panic) = (\<not> list_all has_name (Promotions m))"
    using assms(4-6) r po c
    by (simp add: promote_subscribers_case_def GetPromotions_def Let_def
        split: option.splits)
  have 2: "list_all has_name (Promotions m) \<longrightarrow>
            fst (run d opts w) =
              Returned (map_option (\<lambda>e. Wrap e ''promote subscribers'') promoteErr)"
    using assms(4-6) r po c
    by (simp add: promote_subscribers_case_def GetPromotions_def Let_def
        split: option.splits)
  have 3: "Stage sopts \<noteq> [] \<longrightarrow> ptr_Deref (OutputFormat sopts) [] = [] \<longrightarrow>
            PromoteStage svc (stage_request sopts) = (Some sres, None) \<longrightarrow>
            fst (run d sopts w) = Returned None"
    using assms(1) by (simp add: run_stage_branch promote_stage_case_def)
  from 1 2 3 show ?thesis by blast
qed

text \<open>Two named promotions; a single-stage response whose promotion has no metadata; and
  a subscribers response whose second promotion has no name.\<close>

theorem plain_subscribers_dereference_witness:
  "fst (run (with_client (client_returning
              (Some \<lparr>Msg = Some \<lparr>Promotion = Some \<lparr>Metadata = None\<rparr>\<rparr>\<rparr>, None)
              (Some \<lparr>Msg = Some \<lparr>Promotions = [named ''promo-2'', named ''promo-3'']\<rparr>\<rparr>,
               None)))
          \<lparr>Project = ''my-project'', OutputFormat = None, ToPrinter = Inr name_printer,
           FreightName = ''abc123'', FreightAlias = [], Stage = [], SubscribersOf = ''qa''\<rparr>
          empty_world) = Returned None
   \<and> fst (run (with_client (client_returning
              (Some \<lparr>Msg = Some \<lparr>Promotion = Some \<lparr>Metadata = None\<rparr>\<rparr>\<rparr>, None)
              (Some \<lparr>Msg = Some \<lparr>Promotions = [named ''promo-2'', named ''promo-3'']\<rparr>\<rparr>,
               None)))
          \<lparr>Project = ''my-project'', OutputFormat = None, ToPrinter = Inr name_printer,
           FreightName = ''abc123'', FreightAlias = [], Stage = ''qa'', SubscribersOf = []\<rparr>
          empty_world) = Returned None
   \<and> fst (run (with_client (client_returning (None, None)
              (Some \<lparr>Msg = Some \<lparr>Promotions =
                 [named ''promo-2'', Some \<lparr>Metadata = Some \<lparr>Name = None\<rparr>\<rparr>]\<rparr>\<rparr>, None)))
          \<lparr>Project = ''my-project'', OutputFormat = None, ToPrinter = Inr name_printer,
           FreightName = ''abc123'', FreightAlias = [], Stage = [], SubscribersOf = ''qa''\<rparr>
          empty_world) = Panic"
  using plain_subscribers_dereference
    [where d = "with_client (client_returning
              (Some \<lparr>Msg = Some \<lparr>Promotion = Some \<lparr>Metadata = None\<rparr>\<rparr>\<rparr>, None)
              (Some \<lparr>Msg = Some \<lparr>Promotions = [named ''promo-2'', named ''promo-3'']\<rparr>\<rparr>,
               None))"
      and svc = "client_returning
              (Some \<lparr>Msg = Some \<lparr>Promotion = Some \<lparr>Metadata = None\<rparr>\<rparr>\<rparr>, None)
              (Some \<lparr>Msg = Some \<lparr>Promotions = [named ''promo-2'', named ''promo-3'']\<rparr>\<rparr>,
               None)"
      and opts = "\<lparr>Project = ''my-project'', OutputFormat = None,
           ToPrinter = Inr name_printer,
           FreightName = ''abc123'', FreightAlias = [], Stage = [], SubscribersOf = ''qa''\<rparr>"
      and res = "\<lparr>Msg = Some \<lparr>Promotions = [named ''promo-2'', named ''promo-3'']\<rparr>\<rparr>"
      and promoteErr = None
      and m = "\<lparr>Promotions = [named ''promo-2'', named ''promo-3'']\<rparr>"
      and sopts = "\<lparr>Project = ''my-project'', OutputFormat = None,
           ToPrinter = Inr name_printer,
           FreightName = ''abc123'', FreightAlias = [], Stage = ''qa'', SubscribersOf = []\<rparr>"
      and sres = "\<lparr>Msg = Some \<lparr>Promotion = Some \<lparr>Metadata = None\<rparr>\<rparr>\<rparr>"
      and w = empty_world]
    plain_subscribers_dereference
    [where d = "with_client (client_returning (None, None)
              (Some \<lparr>Msg = Some \<lparr>Promotions =
                 [named ''promo-2'', Some \<lparr>Metadata = Some \<lparr>Name = None\<rparr>\<rparr>]\<rparr>\<rparr>, None))"
      and svc = "client_returning (None, None)
              (Some \<lparr>Msg = Some \<lparr>Promotions =
                 [named ''promo-2'', Some \<lparr>Metadata = Some \<lparr>Name = None\<rparr>\<rparr>]\<rparr>\<rparr>, None)"
      and opts = "\<lparr>Project = ''my-project'', OutputFormat = None,
           ToPrinter = Inr name_printer,
           FreightName = ''abc123'', FreightAlias = [], Stage = [], SubscribersOf = ''qa''\<rparr>"
      and res = "\<lparr>Msg = Some \<lparr>Promotions =
                 [named ''promo-2'', Some \<lparr>Metadata = Some \<lparr>Name = None\<rparr>\<rparr>]\<rparr>\<rparr>"
      and promoteErr = None
      and m = "\<lparr>Promotions = [named ''promo-2'', Some \<lparr>Metadata = Some \<lparr>Name = None\<rparr>\<rparr>]\<rparr>"
      and w = empty_world]
  by (simp add: with_client_def client_returning_def ptr_Deref_def named_def has_name_def
      subscribers_request_def stage_request_def)

subsection \<open>validate\<close>

text \<open>
  Claim C4, as the code has it. \<open>validate\<close> checks that the project is not empty, that
  the two freight fields are not both empty and that the two selector fields are not
  both empty. When one of these checks is violated it returns the aggregate of the errors
  of every violated check, in the order project, freight, selector, and the command
  returns that error with the stream and the call log untouched: \<open>run\<close> is not entered
  and no remote call is made.
\<close>

theorem validate_rejects_missing:
  assumes "Project opts = [] \<or> (FreightName opts = [] \<and> FreightAlias opts = [])
           \<or> (Stage opts = [] \<and> SubscribersOf opts = [])"
  shows "\<exists>errs. errs \<noteq> []
      \<and> errs = map snd (filter fst
           [(Project opts = [], Errorf (ProjectFlag fl @ '' is required'')),
            (FreightName opts = [] \<and> FreightAlias opts = [],
             Errorf (''either '' @ FreightFlag fl @ '' or '' @ FreightAliasFlag fl @
                     '' is required'')),
            (Stage opts = [] \<and> SubscribersOf opts = [],
             Errorf (''either '' @ StageFlag fl @ '' or '' @ SubscribersOfFlag fl @
                     '' is required''))])
      \<and> validate fl opts = Some (Join errs)
      \<and> RunE fl d opts w = (Returned (Some (Join errs)), w)"
  using assms by (auto simp add: validate_def RunE_def goerrors_Join_def)

text \<open>Every field empty: the three errors, in order.\<close>

theorem validate_rejects_missing_witness:
  "RunE usage_flags (with_client (client_returning (None, None) (None, None)))
     \<lparr>Project = [], OutputFormat = None, ToPrinter = Inr name_printer,
      FreightName = [], FreightAlias = [], Stage = [], SubscribersOf = []\<rparr> empty_world =
   (Returned (Some (Join [Errorf ''project is required'',
                          Errorf ''either freight or freight-alias is required'',
                          Errorf ''either stage or subscribers-of is required''])),
    empty_world)"
  using validate_rejects_missing
    [of "\<lparr>Project = [], OutputFormat = None, ToPrinter = Inr name_printer,
      FreightName = [], FreightAlias = [], Stage = [], SubscribersOf = []\<rparr>"
      usage_flags "with_client (client_returning (None, None) (None, None))" empty_world]
  by (simp add: usage_flags_def)

text \<open>
  Options in which both freight fields and both selector fields are set are not
  rejected: \<open>validate\<close> returns nil and the command goes on to the remote call.
\<close>

theorem validate_accepts_both_set_counterexample:
  "validate usage_flags
     \<lparr>Project = ''my-project'', OutputFormat = None, ToPrinter = Inr name_printer,
      FreightName = ''abc123'', FreightAlias = ''wonky-wombat'',
      Stage = ''qa'', SubscribersOf = ''dev''\<rparr> = None
   \<and> calls (snd (RunE usage_flags
        (with_client (client_returning
           (Some \<lparr>Msg = Some \<lparr>Promotion = named ''promo-1''\<rparr>\<rparr>, None) (None, None)))
        \<lparr>Project = ''my-project'', OutputFormat = None, ToPrinter = Inr name_printer,
         FreightName = ''abc123'', FreightAlias = ''wonky-wombat'',
         Stage = ''qa'', SubscribersOf = ''dev''\<rparr> empty_world)) =
     [CallPromoteStage \<lparr>req_Project = ''my-project'', req_Freight = ''abc123'',
                        req_FreightAlias = ''wonky-wombat'', req_Stage = ''qa''\<rparr>]"
  by (simp add: validate_def goerrors_Join_def RunE_def run_def promote_stage_case_def
      with_client_def client_returning_def stage_request_def ptr_Deref_def empty_world_def)

subsection \<open>Subscribers, structured output\<close>

text \<open>With a missing response the plain path returns the wrapped error and writes
  nothing: the guard \<open>res != nil && res.Msg != nil\<close> skips the loop.\<close>

lemma subscribers_plain_nil_response:
  assumes "validate fl opts = None"
    and "GetClientFromConfig d = Inr svc"
    and "Stage opts = []" and "SubscribersOf opts \<noteq> []"
    and "ptr_Deref (OutputFormat opts) [] = []"
    and "PromoteSubscribers svc (subscribers_request opts) = (None, Some E)"
  shows "RunE fl d opts w =
           (Returned (Some (Wrap E ''promote subscribers'')),
            w\<lparr>calls := calls w @ [CallPromoteSubscribers (subscribers_request opts)]\<rparr>)"
  using assms
  by (simp add: RunE_valid run_subscribers_branch promote_subscribers_case_def)

text \<open>The structured path has no such guard: \<open>res.Msg\<close> is read on the nil response.\<close>

lemma subscribers_structured_nil_response:
  assumes "validate fl opts = None"
    and "GetClientFromConfig d = Inr svc"
    and "Stage opts = []" and "SubscribersOf opts \<noteq> []"
    and "ptr_Deref (OutputFormat opts) [] \<noteq> []"
    and "ToPrinter opts = Inr printer"
    and "PromoteSubscribers svc (subscribers_request opts) = (None, promoteErr)"
  shows "fst (RunE fl d opts w) = Panic"
  using assms
  by (simp add: RunE_valid run_subscribers_branch promote_subscribers_case_def)

text \<open>With a response, the structured path returns the error of the call as the call
  returned it.\<close>

lemma subscribers_structured_returns_call_error:
  assumes "validate fl opts = None"
    and "GetClientFromConfig d = Inr svc"
    and "Stage opts = []" and "SubscribersOf opts \<noteq> []"
    and "ptr_Deref (OutputFormat opts) [] \<noteq> []"
    and "ToPrinter opts = Inr printer"
    and "PromoteSubscribers svc (subscribers_request opts) = (Some res, promoteErr)"
  shows "fst (RunE fl d opts w) = Returned promoteErr"
  using assms
  by (simp add: RunE_valid run_subscribers_branch promote_subscribers_case_def)

text \<open>
  Claim C2. With an output format requested, a response holding one promotion and an
  error \<open>E\<close> from \<open>PromoteSubscribers\<close>, the command hands the promotion to the printer
  and returns \<open>E\<close> itself, not \<open>E\<close> wrapped with \<open>promote subscribers\<close> as the plain
  path does.
\<close>

theorem subscribers_structured_error_not_wrapped:
  "RunE usage_flags
     (with_client (client_returning (None, None)
        (Some \<lparr>Msg = Some \<lparr>Promotions = [named ''promo-2'']\<rparr>\<rparr>, Some (Remote ''E''))))
     \<lparr>Project = ''my-project'', OutputFormat = Some ''json'', ToPrinter = Inr name_printer,
      FreightName = [], FreightAlias = ''wonky-wombat'', Stage = [], SubscribersOf = ''qa''\<rparr>
     empty_world =
   (Returned (Some (Remote ''E'')),
    \<lparr>Out = ''promo-2'' @ [CHR 0x0A],
     calls = [CallPromoteSubscribers
                \<lparr>req_Project = ''my-project'', req_Freight = [],
                 req_FreightAlias = ''wonky-wombat'', req_Stage = ''qa''\<rparr>]\<rparr>)"
  by (simp add: validate_def goerrors_Join_def RunE_def run_def promote_subscribers_case_def
      with_client_def client_returning_def subscribers_request_def ptr_Deref_def
      empty_world_def GetPromotions_def named_def name_printer_def GetName_def GetMetadata_def)

text \<open>
  Claim C3. With an output format requested, a nil response and an error \<open>E\<close> from
  \<open>PromoteSubscribers\<close>, the command does not return: reading \<open>res.Msg\<close> panics after
  the remote call.
\<close>

theorem subscribers_structured_nil_response_panics:
  "RunE usage_flags
     (with_client (client_returning (None, None) (None, Some (Remote ''E''))))
     \<lparr>Project = ''my-project'', OutputFormat = Some ''json'', ToPrinter = Inr name_printer,
      FreightName = [], FreightAlias = ''wonky-wombat'', Stage = [], SubscribersOf = ''qa''\<rparr>
     empty_world =
   (Panic,
    \<lparr>Out = [],
     calls = [CallPromoteSubscribers
                \<lparr>req_Project = ''my-project'', req_Freight = [],
                 req_FreightAlias = ''wonky-wombat'', req_Stage = ''qa''\<rparr>]\<rparr>)"
  by (simp add: validate_def goerrors_Join_def RunE_def run_def promote_subscribers_case_def
      with_client_def client_returning_def subscribers_request_def ptr_Deref_def
      empty_world_def)

end
